theory Spec2Isabelle
  imports Complex_Main
begin

section \<open>The alert engine of Jal-Rakshya\<close>

text \<open>
  The module embedded here is the dynamic alert engine (\<^verbatim>\<open>generateAlerts\<close>,
  \<^verbatim>\<open>generateGovUpdates\<close> and the table \<^verbatim>\<open>ALERT_THRESHOLDS\<close>).

  Conventions of the embedding.
  \<^item> A numeric field of a record holds a finite JavaScript number, or is missing
    (\<^verbatim>\<open>undefined\<close>) or \<^verbatim>\<open>null\<close>. A finite double is the real it denotes: every
    threshold of the table is a double, and comparing two doubles is exact. The relational
    operators first apply \<^verbatim>\<open>ToNumber\<close>, which sends \<^verbatim>\<open>undefined\<close> to NaN and
    \<^verbatim>\<open>null\<close> to 0, and every comparison with NaN is false. NaN and the infinities
    are not among the field values of the model.
  \<^item> The arithmetic of the health check is binary64 arithmetic: every sum, quotient
    and difference is the exact result rounded to the nearest double, ties to the even
    significand, and a result beyond the largest double is an infinity. A score is a
    finite double; the two zeros are one value, which no comparison tells apart.
  \<^item> A record keeps the fields that decide which alerts and priorities come out:
    \<^verbatim>\<open>year\<close>, the five numeric fields and \<^verbatim>\<open>scarcityLevel\<close> (a string, or
    missing). The fields that are only printed (\<^verbatim>\<open>location\<close> and the three usage
    figures) are left out.
  \<^item> An alert keeps the fields \<^verbatim>\<open>type\<close>, \<^verbatim>\<open>category\<close>, \<^verbatim>\<open>title\<close>,
    \<^verbatim>\<open>value\<close> (written \<open>val\<close>), \<^verbatim>\<open>threshold\<close>, \<^verbatim>\<open>recommendation\<close> and
    \<^verbatim>\<open>timestamp\<close>. The \<^verbatim>\<open>message\<close>, a template literal that prints field values
    into a sentence, is left out, and so is the pictograph that starts every title.
  \<^item> The clock is an input: \<open>now\<close> is the string that
    \<^verbatim>\<open>new Date().toISOString()\<close> returns.
  \<^item> Arrays of records live in a store; an array is named by its address. The
    spread \<^verbatim>\<open>[...history]\<close> allocates a new array and \<^verbatim>\<open>sort\<close> rewrites the
    array it is called on.
  \<^item> \<^verbatim>\<open>calculateWaterScore\<close> comes from another module and is a parameter.
  \<^item> No statement of the two functions throws on records of this shape (property
    reads, comparisons of primitives and \<^verbatim>\<open>push\<close> do not), so both are total
    functions without an error result.
\<close>

subsection \<open>JavaScript values and comparisons\<close>

datatype jsnum = Undefined | Null | Num real

fun ToNumber :: "jsnum \<Rightarrow> real option" where
  "ToNumber Undefined = None"
| "ToNumber Null = Some 0"
| "ToNumber (Num r) = Some r"

definition js_ge :: "jsnum \<Rightarrow> jsnum \<Rightarrow> bool" where
  "js_ge a b = (case ToNumber a of None \<Rightarrow> False
     | Some x \<Rightarrow> (case ToNumber b of None \<Rightarrow> False | Some y \<Rightarrow> y \<le> x))"

definition js_le :: "jsnum \<Rightarrow> jsnum \<Rightarrow> bool" where
  "js_le a b = (case ToNumber a of None \<Rightarrow> False
     | Some x \<Rightarrow> (case ToNumber b of None \<Rightarrow> False | Some y \<Rightarrow> x \<le> y))"

definition js_gt :: "jsnum \<Rightarrow> jsnum \<Rightarrow> bool" where
  "js_gt a b = (case ToNumber a of None \<Rightarrow> False
     | Some x \<Rightarrow> (case ToNumber b of None \<Rightarrow> False | Some y \<Rightarrow> y < x))"

definition js_lt :: "jsnum \<Rightarrow> jsnum \<Rightarrow> bool" where
  "js_lt a b = (case ToNumber a of None \<Rightarrow> False
     | Some x \<Rightarrow> (case ToNumber b of None \<Rightarrow> False | Some y \<Rightarrow> x < y))"

subsection \<open>Binary64 arithmetic\<close>

text \<open>A value of the arithmetic: a finite double, an infinity or NaN.\<close>

datatype double = Fin real | PInf | NInf | NaN

text \<open>Rounding to the nearest integer, a tie to the even one.\<close>

definition rne :: "real \<Rightarrow> int" where
  "rne q =
     (let f = \<lfloor>q\<rfloor>; d = q - of_int f
      in if d < 1 / 2 then f else if 1 / 2 < d then f + 1 else if even f then f else f + 1)"

text \<open>The doubles around \<open>x \<noteq> 0\<close> are the multiples of \<open>ulp x\<close>: the significand
  has 53 bits, and below \<open>2\<^sup>-\<^sup>1\<^sup>0\<^sup>2\<^sup>2\<close> the spacing stays \<open>2\<^sup>-\<^sup>1\<^sup>0\<^sup>7\<^sup>4\<close>. \<open>fl x\<close> is the
  nearest of them, with the exponent not bounded above; \<open>to_double\<close> adds the
  overflow to an infinity.\<close>

definition exponent :: "real \<Rightarrow> int" where
  "exponent x = max \<lfloor>log 2 \<bar>x\<bar>\<rfloor> (- 1022)"

definition ulp :: "real \<Rightarrow> real" where
  "ulp x = 2 powr (of_int (exponent x) - 52)"

definition fl :: "real \<Rightarrow> real" where
  "fl x = (if x = 0 then 0 else of_int (rne (x / ulp x)) * ulp x)"

definition to_double :: "real \<Rightarrow> double" where
  "to_double x =
     (if 2 ^ 1024 \<le> \<bar>fl x\<bar> then (if 0 < x then PInf else NInf) else Fin (fl x))"

text \<open>The operators \<^verbatim>\<open>+\<close>, \<^verbatim>\<open>-\<close> and \<^verbatim>\<open><\<close> on numbers, the quotient of a number by
  the length of an array, and \<^verbatim>\<open>Math.round\<close>, which rounds to the nearest integer, a
  half upwards (\<open>round\<close> is \<open>\<lambda>x. \<lfloor>x + 1/2\<rfloor>\<close>; the result is a double).\<close>

fun d_add :: "double \<Rightarrow> double \<Rightarrow> double" where
  "d_add (Fin a) (Fin b) = to_double (a + b)"
| "d_add NaN _ = NaN"
| "d_add _ NaN = NaN"
| "d_add PInf NInf = NaN"
| "d_add NInf PInf = NaN"
| "d_add PInf _ = PInf"
| "d_add _ PInf = PInf"
| "d_add NInf _ = NInf"
| "d_add _ NInf = NInf"

fun d_neg :: "double \<Rightarrow> double" where
  "d_neg (Fin a) = Fin (- a)"
| "d_neg PInf = NInf"
| "d_neg NInf = PInf"
| "d_neg NaN = NaN"

definition d_sub :: "double \<Rightarrow> double \<Rightarrow> double" where
  "d_sub a b = d_add a (d_neg b)"

fun d_div_length :: "double \<Rightarrow> nat \<Rightarrow> double" where
  "d_div_length (Fin a) n =
     (if n = 0 then (if 0 < a then PInf else if a < 0 then NInf else NaN)
      else to_double (a / real n))"
| "d_div_length PInf n = PInf"
| "d_div_length NInf n = NInf"
| "d_div_length NaN n = NaN"

fun d_lt :: "double \<Rightarrow> double \<Rightarrow> bool" where
  "d_lt (Fin a) (Fin b) = (a < b)"
| "d_lt NaN _ = False"
| "d_lt _ NaN = False"
| "d_lt _ NInf = False"
| "d_lt PInf _ = False"
| "d_lt NInf _ = True"
| "d_lt _ PInf = True"

fun Math_round :: "double \<Rightarrow> double" where
  "Math_round (Fin a) = Fin (of_int (round a))"
| "Math_round d = d"

subsection \<open>Records, alerts and updates\<close>

record water_record =
  year :: int
  groundwaterLevel :: jsnum
  depletionRate :: jsnum
  rainfall :: jsnum
  ph :: jsnum
  consumption :: jsnum
  scarcityLevel :: "string option"

datatype severity = Critical | Warning | Info

datatype category =
  WaterLevel | Depletion | Rainfall | WaterQuality | Consumption | Scarcity | Trend

datatype alert_value = NumV jsnum | StrV string | NonFiniteV double

text \<open>A computed number as the value of an alert.\<close>

fun number_value :: "double \<Rightarrow> alert_value" where
  "number_value (Fin r) = NumV (Num r)"
| "number_value d = NonFiniteV d"

record alert =
  type :: severity
  category :: category
  title :: string
  val :: alert_value
  threshold :: "alert_value option"
  recommendation :: string
  timestamp :: string

datatype priority = High | Normal

record gov_update =
  id :: nat
  title :: string
  date :: string
  source :: string
  priority :: priority

subsection \<open>The threshold table\<close>

definition criticalWaterLevel :: real where "criticalWaterLevel = 15"
definition warningWaterLevel :: real where "warningWaterLevel = 12"
definition highDepletion :: real where "highDepletion = 5"
definition criticalDepletion :: real where "criticalDepletion = 7"
definition lowRainfall :: real where "lowRainfall = 700"
definition criticalRainfall :: real where "criticalRainfall = 600"
definition highPH :: real where "highPH = 8"
definition lowPH :: real where "lowPH = 13 / 2"
definition highConsumption :: real where "highConsumption = 500"

subsection \<open>The threshold checks on the latest record\<close>

definition waterLevelAlerts :: "string \<Rightarrow> water_record \<Rightarrow> alert list" where
  "waterLevelAlerts now data =
     (if js_ge (groundwaterLevel data) (Num criticalWaterLevel) then
        [\<lparr>type = Critical, category = WaterLevel, title = ''Critical Water Level'',
          val = NumV (groundwaterLevel data), threshold = Some (NumV (Num criticalWaterLevel)),
          recommendation = ''Implement water rationing and emergency recharge measures.'',
          timestamp = now\<rparr>]
      else if js_ge (groundwaterLevel data) (Num warningWaterLevel) then
        [\<lparr>type = Warning, category = WaterLevel, title = ''Low Water Table'',
          val = NumV (groundwaterLevel data), threshold = Some (NumV (Num warningWaterLevel)),
          recommendation = ''Increase monitoring frequency. Consider water conservation measures.'',
          timestamp = now\<rparr>]
      else [])"

definition depletionAlerts :: "string \<Rightarrow> water_record \<Rightarrow> alert list" where
  "depletionAlerts now data =
     (if js_ge (depletionRate data) (Num criticalDepletion) then
        [\<lparr>type = Critical, category = Depletion, title = ''Over-extraction Detected'',
          val = NumV (depletionRate data), threshold = Some (NumV (Num criticalDepletion)),
          recommendation = ''Restrict bore-well usage. Implement mandatory rainwater harvesting.'',
          timestamp = now\<rparr>]
      else if js_ge (depletionRate data) (Num highDepletion) then
        [\<lparr>type = Warning, category = Depletion, title = ''High Depletion Rate'',
          val = NumV (depletionRate data), threshold = Some (NumV (Num highDepletion)),
          recommendation = ''Promote water-efficient irrigation. Review extraction permits.'',
          timestamp = now\<rparr>]
      else [])"

definition rainfallAlerts :: "string \<Rightarrow> water_record \<Rightarrow> alert list" where
  "rainfallAlerts now data =
     (if js_le (rainfall data) (Num criticalRainfall) then
        [\<lparr>type = Critical, category = Rainfall, title = ''Drought Risk'',
          val = NumV (rainfall data), threshold = Some (NumV (Num criticalRainfall)),
          recommendation = ''Activate drought contingency plans. Arrange water tanker supply.'',
          timestamp = now\<rparr>]
      else if js_le (rainfall data) (Num lowRainfall) then
        [\<lparr>type = Warning, category = Rainfall, title = ''Below Normal Rainfall'',
          val = NumV (rainfall data), threshold = Some (NumV (Num lowRainfall)),
          recommendation = ''Monitor reservoir levels. Advise farmers on drought-resistant crops.'',
          timestamp = now\<rparr>]
      else [])"

text \<open>The threshold of the pH alert is the string \<^verbatim>\<open>`${lowPH}-${highPH}`\<close>, which is
  \<^verbatim>\<open>6.5-8\<close>.\<close>

definition phAlerts :: "string \<Rightarrow> water_record \<Rightarrow> alert list" where
  "phAlerts now data =
     (if js_ge (ph data) (Num highPH) \<or> js_le (ph data) (Num lowPH) then
        [\<lparr>type = Warning, category = WaterQuality, title = ''pH Imbalance'',
          val = NumV (ph data), threshold = Some (StrV ''6.5-8''),
          recommendation = ''Test for contaminants. Advise water treatment before consumption.'',
          timestamp = now\<rparr>]
      else [])"

definition consumptionAlerts :: "string \<Rightarrow> water_record \<Rightarrow> alert list" where
  "consumptionAlerts now data =
     (if js_ge (consumption data) (Num highConsumption) then
        [\<lparr>type = Info, category = Consumption, title = ''High Water Consumption'',
          val = NumV (consumption data), threshold = Some (NumV (Num highConsumption)),
          recommendation = ''Review industrial and agricultural water permits. Promote efficiency.'',
          timestamp = now\<rparr>]
      else [])"

definition scarcityAlerts :: "string \<Rightarrow> water_record \<Rightarrow> alert list" where
  "scarcityAlerts now data =
     (case scarcityLevel data of
        None \<Rightarrow> []
      | Some s \<Rightarrow>
          if s = ''Severe'' \<or> s = ''Extreme'' then
            [\<lparr>type = Critical, category = Scarcity, title = s @ '' Water Scarcity'',
              val = StrV s, threshold = None,
              recommendation = ''Prioritize for government water supply augmentation schemes.'',
              timestamp = now\<rparr>]
          else [])"

subsection \<open>The trend checks on the sorted history\<close>

text \<open>The three counting loops have one shape:
  \<^verbatim>\<open>for (let i = 1; i < sorted.length; i++) { if (bad step) c++; else c = 0; }\<close>
  where the step compares \<^verbatim>\<open>sorted[i]\<close> with \<^verbatim>\<open>sorted[i - 1]\<close>.\<close>

function streak_loop ::
  "(water_record \<Rightarrow> water_record \<Rightarrow> bool) \<Rightarrow> water_record list \<Rightarrow> nat \<Rightarrow> nat \<Rightarrow> nat" where
  "streak_loop step sorted' i c =
     (if i < length sorted'
      then streak_loop step sorted' (i + 1) (if step (sorted' ! i) (sorted' ! (i - 1)) then c + 1 else 0)
      else c)"
  by pat_completeness auto
termination
  by (relation "measure (\<lambda>(step, sorted', i, c). length sorted' - i)") auto

definition consecutiveRise :: "water_record list \<Rightarrow> nat" where
  "consecutiveRise sorted' =
     streak_loop (\<lambda>cur prev. js_gt (groundwaterLevel cur) (groundwaterLevel prev)) sorted' 1 0"

definition consecutiveDepIncrease :: "water_record list \<Rightarrow> nat" where
  "consecutiveDepIncrease sorted' =
     streak_loop (\<lambda>cur prev. js_gt (depletionRate cur) (depletionRate prev)) sorted' 1 0"

definition consecutiveRainfallDrop :: "water_record list \<Rightarrow> nat" where
  "consecutiveRainfallDrop sorted' =
     streak_loop (\<lambda>cur prev. js_lt (rainfall cur) (rainfall prev)) sorted' 1 0"

definition levelTrendAlerts :: "string \<Rightarrow> water_record list \<Rightarrow> alert list" where
  "levelTrendAlerts now sorted' =
     (if 3 \<le> consecutiveRise sorted' then
        [\<lparr>type = Warning, category = Trend, title = ''Sustained Water Level Decline'',
          val = NumV (Num (real (consecutiveRise sorted'))), threshold = None,
          recommendation = ''Long-term recharge intervention needed. Consider artificial recharge structures.'',
          timestamp = now\<rparr>]
      else [])"

definition depletionTrendAlerts :: "string \<Rightarrow> water_record list \<Rightarrow> alert list" where
  "depletionTrendAlerts now sorted' =
     (if 3 \<le> consecutiveDepIncrease sorted' then
        [\<lparr>type = Critical, category = Trend, title = ''Accelerating Depletion Trend'',
          val = NumV (Num (real (consecutiveDepIncrease sorted'))), threshold = None,
          recommendation = ''Urgent policy intervention needed. Restrict new extraction permits.'',
          timestamp = now\<rparr>]
      else [])"

definition rainfallTrendAlerts :: "string \<Rightarrow> water_record list \<Rightarrow> alert list" where
  "rainfallTrendAlerts now sorted' =
     (if 3 \<le> consecutiveRainfallDrop sorted' then
        [\<lparr>type = Warning, category = Trend, title = ''Declining Rainfall Pattern'',
          val = NumV (Num (real (consecutiveRainfallDrop sorted'))), threshold = None,
          recommendation = ''Plan for drought resilience. Increase water storage capacity.'',
          timestamp = now\<rparr>]
      else [])"

text \<open>\<^verbatim>\<open>xs.reduce((a, b) => a + b, 0) / xs.length\<close>: the sum from the left, each
  partial sum rounded, then the quotient, rounded. Both halves are non-empty whenever
  the check runs.\<close>

definition avg :: "real list \<Rightarrow> double" where
  "avg xs = d_div_length (foldl (\<lambda>a b. d_add a (Fin b)) (Fin 0) xs) (length xs)"

definition healthTrendAlerts ::
  "(water_record \<Rightarrow> real) \<Rightarrow> string \<Rightarrow> water_record list \<Rightarrow> alert list" where
  "healthTrendAlerts calculateWaterScore now sorted' =
     (let scores = map calculateWaterScore sorted';
          firstHalf = take (length scores div 2) scores;
          secondHalf = drop (length scores div 2) scores;
          avgFirst = avg firstHalf;
          avgSecond = avg secondHalf
      in if d_lt avgSecond (d_sub avgFirst (Fin 10)) then
           [\<lparr>type = Warning, category = Trend, title = ''Overall Water Health Declining'',
             val = number_value (Math_round (d_sub avgSecond avgFirst)), threshold = None,
             recommendation = ''Comprehensive water management review recommended for this location.'',
             timestamp = now\<rparr>]
         else [])"

subsection \<open>The store of arrays\<close>

text \<open>An address is an index into the store. Allocation appends, so a new array
  never has the address of an old one.\<close>

type_synonym heap = "water_record list list"

definition lookup :: "heap \<Rightarrow> nat \<Rightarrow> water_record list option" where
  "lookup h a = (if a < length h then Some (h ! a) else None)"

text \<open>\<^verbatim>\<open>[...xs]\<close>: a new array with the elements of \<open>xs\<close>.\<close>

definition spread :: "heap \<Rightarrow> water_record list \<Rightarrow> nat \<times> heap" where
  "spread h xs = (length h, h @ [xs])"

text \<open>\<^verbatim>\<open>arr.sort((a, b) => a.year - b.year)\<close> sorts the array at \<open>p\<close> in place,
  ascending by year; the sort of the language is stable, as insertion sort is.\<close>

definition sort_by_year :: "heap \<Rightarrow> nat \<Rightarrow> heap" where
  "sort_by_year h p = h[p := sort_key year (h ! p)]"

subsection \<open>generateAlerts\<close>

text \<open>The argument \<open>history\<close> is \<open>None\<close> when the caller passes no history, and
  the address of an array otherwise. An address outside the store cannot arise in the
  language; the model treats it as no history.\<close>

definition generateAlerts ::
  "(water_record \<Rightarrow> real) \<Rightarrow> string \<Rightarrow> heap \<Rightarrow> water_record \<Rightarrow> nat option \<Rightarrow> alert list \<times> heap" where
  "generateAlerts calculateWaterScore now h data history =
     (let alerts = [];
          alerts = alerts @ waterLevelAlerts now data;
          alerts = alerts @ depletionAlerts now data;
          alerts = alerts @ rainfallAlerts now data;
          alerts = alerts @ phAlerts now data;
          alerts = alerts @ consumptionAlerts now data;
          alerts = alerts @ scarcityAlerts now data
      in case history of
           None \<Rightarrow> (alerts, h)
         | Some a \<Rightarrow>
             (case lookup h a of
                None \<Rightarrow> (alerts, h)
              | Some hist \<Rightarrow>
                  if 3 \<le> length hist then
                    (let (p, h1) = spread h hist;
                         h2 = sort_by_year h1 p;
                         sorted' = h2 ! p;
                         alerts = alerts @ levelTrendAlerts now sorted';
                         alerts = alerts @ depletionTrendAlerts now sorted';
                         alerts = alerts @ rainfallTrendAlerts now sorted';
                         alerts = alerts @ healthTrendAlerts calculateWaterScore now sorted'
                     in (alerts, h2))
                  else (alerts, h)))"

subsection \<open>generateGovUpdates\<close>

text \<open>\<^verbatim>\<open>locationData[locationData.length - 1]\<close> is \<^verbatim>\<open>undefined\<close> for the empty
  array, and then the function returns the empty list. Each update reads the clock for
  its date: \<open>dates k\<close> is the string the \<open>k\<close>-th read returns. The \<^verbatim>\<open>body\<close> is a
  template literal and is left out.\<close>

definition generateGovUpdates :: "(nat \<Rightarrow> string) \<Rightarrow> water_record list \<Rightarrow> gov_update list" where
  "generateGovUpdates dates locationData =
     (case locationData of
        [] \<Rightarrow> []
      | _ # _ \<Rightarrow>
          (let latest = last locationData in
           [\<lparr>id = 1, title = ''Groundwater Status Report'', date = dates 1,
              source = ''Central Ground Water Board'',
              priority = (if scarcityLevel latest = Some ''Severe'' \<or> scarcityLevel latest = Some ''Extreme''
                          then High else Normal)\<rparr>,
            \<lparr>id = 2, title = ''Rainfall Monitoring Update'', date = dates 2,
              source = ''India Meteorological Department'',
              priority = (if js_lt (rainfall latest) (Num 700) then High else Normal)\<rparr>,
            \<lparr>id = 3, title = ''Water Quality Assessment'', date = dates 3,
              source = ''State Pollution Control Board'',
              priority = Normal\<rparr>,
            \<lparr>id = 4, title = ''Usage Distribution Report'', date = dates 4,
              source = ''Nashik District Water Authority'',
              priority = Normal\<rparr>,
            \<lparr>id = 5, title = ''Jal Shakti Abhiyan Advisory'', date = dates 5,
              source = ''Ministry of Jal Shakti'',
              priority = (if scarcityLevel latest = Some ''High'' \<or> scarcityLevel latest = Some ''Severe''
                          then High else Normal)\<rparr>]))"

subsection \<open>Notions of the specification\<close>

text \<open>The fixed order of the categories in the output.\<close>

fun category_rank :: "category \<Rightarrow> nat" where
  "category_rank WaterLevel = 0"
| "category_rank Depletion = 1"
| "category_rank Rainfall = 2"
| "category_rank WaterQuality = 3"
| "category_rank Consumption = 4"
| "category_rank Scarcity = 5"
| "category_rank Trend = 6"

text \<open>The adjacent steps of a series from left to right, each marked by whether it moves
  in the bad direction, and the length of the run of bad steps that ends at the last
  element.\<close>

definition bad_steps :: "('a \<Rightarrow> 'a \<Rightarrow> bool) \<Rightarrow> 'a list \<Rightarrow> bool list" where
  "bad_steps step xs = map (\<lambda>j. step (xs ! j) (xs ! (j - 1))) [1..<length xs]"

definition trailing_run :: "('a \<Rightarrow> 'a \<Rightarrow> bool) \<Rightarrow> 'a list \<Rightarrow> nat" where
  "trailing_run step xs = length (takeWhile (\<lambda>b. b) (rev (bad_steps step xs)))"

definition level_rises :: "water_record \<Rightarrow> water_record \<Rightarrow> bool" where
  "level_rises cur prev = js_gt (groundwaterLevel cur) (groundwaterLevel prev)"

definition depletion_rises :: "water_record \<Rightarrow> water_record \<Rightarrow> bool" where
  "depletion_rises cur prev = js_gt (depletionRate cur) (depletionRate prev)"

definition rainfall_drops :: "water_record \<Rightarrow> water_record \<Rightarrow> bool" where
  "rainfall_drops cur prev = js_lt (rainfall cur) (rainfall prev)"




text \<open>The titles of the three alerts that count consecutive steps.\<close>

definition streak_titles :: "string list" where
  "streak_titles =
     [''Sustained Water Level Decline'', ''Accelerating Depletion Trend'',
      ''Declining Rainfall Pattern'']"

text \<open>An alert with its timestamp blanked: what two alerts raised at different times have
  in common.\<close>

definition untimed :: "alert \<Rightarrow> alert" where
  "untimed a = a\<lparr>timestamp := []\<rparr>"

subsection \<open>Sample inputs\<close>

text \<open>A record with every field missing, a series of records whose year, level, depletion
  rate and rainfall are given, a score that reads the pH field, and a clock.\<close>

definition empty_record :: water_record where
  "empty_record =
     \<lparr>year = 0, groundwaterLevel = Undefined, depletionRate = Undefined, rainfall = Undefined,
       ph = Undefined, consumption = Undefined, scarcityLevel = None\<rparr>"

definition reading :: "int \<Rightarrow> real \<Rightarrow> real \<Rightarrow> real \<Rightarrow> water_record" where
  "reading y l d r =
     \<lparr>year = y, groundwaterLevel = Num l, depletionRate = Num d, rainfall = Num r,
       ph = Undefined, consumption = Undefined, scarcityLevel = None\<rparr>"


definition ph_score :: "water_record \<Rightarrow> real" where
  "ph_score d = (case ph d of Num s \<Rightarrow> s | _ \<Rightarrow> 0)"

definition sample_dates :: "nat \<Rightarrow> string" where
  "sample_dates k = ''2/11/2026''"








text \<open>Histories given out of order. In \<open>monotone3\<close>, \<open>monotone4\<close> and \<open>monotone5\<close> every
  step of the sorted series is bad for each of the three metrics. In \<open>broken8\<close> the level
  rises four times, stays, and rises twice.\<close>

definition monotone3 :: "water_record list" where
  "monotone3 = [reading 2022 12 3 880, reading 2020 10 1 900, reading 2021 11 2 890]"

definition monotone4 :: "water_record list" where
  "monotone4 =
     [reading 2022 12 3 880, reading 2020 10 1 900, reading 2023 13 4 870, reading 2021 11 2 890]"

definition monotone5 :: "water_record list" where
  "monotone5 =
     [reading 2022 12 3 880, reading 2020 10 1 900, reading 2024 14 5 860, reading 2021 11 2 890,
      reading 2023 13 4 870]"

definition broken8 :: "water_record list" where
  "broken8 =
     [reading 2020 1 0 0, reading 2021 2 0 0, reading 2022 3 0 0, reading 2023 4 0 0,
      reading 2024 5 0 0, reading 2025 5 0 0, reading 2027 7 0 0, reading 2026 6 0 0]"

section \<open>Properties\<close>

subsection \<open>Rounding to a double\<close>

text \<open>How \<open>fl\<close> is evaluated once the binade of its argument is known, and the numbers
  that it leaves as they are: the integers \<open>k\<close> below \<open>2\<^sup>5\<^sup>3\<close> in magnitude, divided by a
  power of two.\<close>

lemma rne_of_int [simp]: "rne (of_int k) = k"
  by (simp add: rne_def)




lemma fl_0 [simp]: "fl 0 = 0"
  by (simp add: fl_def)

lemma fl_dyadic:
  assumes "\<bar>k\<bar> < 2 ^ 53" and "m \<le> 1074"
  shows "fl (of_int k / 2 ^ m) = of_int k / 2 ^ m"
proof (cases "k = 0")
  case True
  then show ?thesis by simp
next
  case False
  let ?x = "real_of_int k / 2 ^ m"
  from False have nz: "?x \<noteq> 0" by simp
  have "exponent ?x \<le> 52 - int m"
  proof -
    have "\<bar>?x\<bar> < 2 ^ 53 / 2 ^ m"
    proof -
      from assms(1) have "\<bar>real_of_int k\<bar> < 2 ^ 53"
        by (metis of_int_abs of_int_less_numeral_power_cancel_iff)
      then show ?thesis by (simp add: abs_divide divide_strict_right_mono)
    qed
    also have "\<dots> = 2 powr (53 - real m)"
      by (simp add: powr_diff powr_realpow)
    finally have "log 2 \<bar>?x\<bar> < 53 - real m"
      using nz by (simp add: log_less_iff)
    then have "\<lfloor>log 2 \<bar>?x\<bar>\<rfloor> < 53 - int m"
      by (simp add: floor_less_iff)
    with assms(2) show ?thesis by (simp add: exponent_def)
  qed
  then obtain i where i: "52 - int m - exponent ?x = int i"
    by (metis diff_ge_0_iff_ge nonneg_int_cases)
  have "ulp ?x = 2 powr (- real m - real i)"
  proof -
    from i have "real_of_int (exponent ?x) - 52 = - real m - real i"
      by linarith
    then show ?thesis unfolding ulp_def by (rule arg_cong)
  qed
  then have u: "ulp ?x = 1 / (2 ^ m * 2 ^ i)"
    by (simp add: powr_diff powr_minus powr_realpow field_simps)
  then have "?x / ulp ?x = of_int (k * 2 ^ i)"
    by simp
  then have "rne (?x / ulp ?x) = k * 2 ^ i"
    by (simp only: rne_of_int)
  with nz u show ?thesis
    unfolding fl_def by simp
qed

lemma to_double_dyadic:
  assumes "\<bar>k\<bar> < 2 ^ 53" and "m \<le> 1074"
  shows "to_double (of_int k / 2 ^ m) = Fin (of_int k / 2 ^ m)"
proof -
  from assms(1) have "\<bar>real_of_int k\<bar> < 2 ^ 53"
    by (metis of_int_abs of_int_less_numeral_power_cancel_iff)
  moreover have "\<bar>real_of_int k / 2 ^ m\<bar> \<le> \<bar>real_of_int k\<bar>"
  proof -
    have "(1::real) \<le> 2 ^ m" by simp
    then have "\<bar>real_of_int k\<bar> * 1 \<le> \<bar>real_of_int k\<bar> * 2 ^ m"
      by (rule mult_left_mono) simp
    then show ?thesis by (simp add: divide_le_eq)
  qed
  moreover have "(2::real) ^ 53 \<le> 2 ^ 1024"
    by (rule power_increasing) simp_all
  ultimately have "\<bar>real_of_int k / 2 ^ m\<bar> < 2 ^ 1024"
    by linarith
  then show ?thesis
    unfolding to_double_def fl_dyadic [OF assms] by simp
qed

lemma to_double_of_int:
  assumes "\<bar>k\<bar> < 2 ^ 53"
  shows "to_double (of_int k) = Fin (of_int k)"
  using to_double_dyadic [OF assms, of 0] by simp

lemma to_double_numeral:
  "(numeral n :: int) < 2 ^ 53 \<Longrightarrow> to_double (numeral n) = Fin (numeral n)"
  "(numeral n :: int) < 2 ^ 53 \<Longrightarrow> to_double (- numeral n) = Fin (- numeral n)"
  "to_double 0 = Fin 0"
  "to_double 1 = Fin 1"
  using to_double_of_int [of "numeral n"] to_double_of_int [of "- numeral n"]
    to_double_of_int [of 0] to_double_of_int [of 1]
  by simp_all


subsection \<open>The shape of the result\<close>

text \<open>The alerts are the six threshold checks on the latest record, in the order of the
  code, followed by the four trend checks on the sorted copy; the store gains the sorted
  copy and nothing else.\<close>

lemma generateAlerts_alerts:
  "fst (generateAlerts sc now h data history) =
     waterLevelAlerts now data @ depletionAlerts now data @ rainfallAlerts now data @
     phAlerts now data @ consumptionAlerts now data @ scarcityAlerts now data @
     (case history of
        None \<Rightarrow> []
      | Some a \<Rightarrow>
          (case lookup h a of
             None \<Rightarrow> []
           | Some hist \<Rightarrow>
               if 3 \<le> length hist then
                 levelTrendAlerts now (sort_key year hist) @
                 depletionTrendAlerts now (sort_key year hist) @
                 rainfallTrendAlerts now (sort_key year hist) @
                 healthTrendAlerts sc now (sort_key year hist)
               else []))"
  by (simp add: generateAlerts_def spread_def sort_by_year_def Let_def split: option.split)

lemma generateAlerts_heap:
  "snd (generateAlerts sc now h data history) =
     (case history of
        None \<Rightarrow> h
      | Some a \<Rightarrow>
          (case lookup h a of
             None \<Rightarrow> h
           | Some hist \<Rightarrow> if 3 \<le> length hist then h @ [sort_key year hist] else h))"
  by (simp add: generateAlerts_def spread_def sort_by_year_def Let_def split: option.split)

lemma filter_waterLevelAlerts:
  "filter (\<lambda>a. P (category a)) (waterLevelAlerts now d) = (if P WaterLevel then waterLevelAlerts now d else [])"
  by (simp add: waterLevelAlerts_def)
lemma filter_depletionAlerts:
  "filter (\<lambda>a. P (category a)) (depletionAlerts now d) = (if P Depletion then depletionAlerts now d else [])"
  by (simp add: depletionAlerts_def)
lemma filter_rainfallAlerts:
  "filter (\<lambda>a. P (category a)) (rainfallAlerts now d) = (if P Rainfall then rainfallAlerts now d else [])"
  by (simp add: rainfallAlerts_def)
lemma filter_phAlerts:
  "filter (\<lambda>a. P (category a)) (phAlerts now d) = (if P WaterQuality then phAlerts now d else [])"
  by (simp add: phAlerts_def)
lemma filter_consumptionAlerts:
  "filter (\<lambda>a. P (category a)) (consumptionAlerts now d) = (if P Consumption then consumptionAlerts now d else [])"
  by (simp add: consumptionAlerts_def)
lemma filter_scarcityAlerts:
  "filter (\<lambda>a. P (category a)) (scarcityAlerts now d) = (if P Scarcity then scarcityAlerts now d else [])"
  by (simp add: scarcityAlerts_def split: option.split)
lemma filter_levelTrendAlerts:
  "filter (\<lambda>a. P (category a)) (levelTrendAlerts now s) = (if P Trend then levelTrendAlerts now s else [])"
  by (simp add: levelTrendAlerts_def)
lemma filter_depletionTrendAlerts:
  "filter (\<lambda>a. P (category a)) (depletionTrendAlerts now s) = (if P Trend then depletionTrendAlerts now s else [])"
  by (simp add: depletionTrendAlerts_def)
lemma filter_rainfallTrendAlerts:
  "filter (\<lambda>a. P (category a)) (rainfallTrendAlerts now s) = (if P Trend then rainfallTrendAlerts now s else [])"
  by (simp add: rainfallTrendAlerts_def)
lemma filter_healthTrendAlerts:
  "filter (\<lambda>a. P (category a)) (healthTrendAlerts sc now s) = (if P Trend then healthTrendAlerts sc now s else [])"
  by (simp add: healthTrendAlerts_def Let_def)

lemmas filter_parts = filter_waterLevelAlerts filter_depletionAlerts filter_rainfallAlerts
  filter_phAlerts filter_consumptionAlerts filter_scarcityAlerts filter_levelTrendAlerts
  filter_depletionTrendAlerts filter_rainfallTrendAlerts filter_healthTrendAlerts

lemma filter_category_generateAlerts:
  "filter (\<lambda>a. P (category a)) (fst (generateAlerts sc now h data history)) =
     (if P WaterLevel then waterLevelAlerts now data else []) @
     (if P Depletion then depletionAlerts now data else []) @
     (if P Rainfall then rainfallAlerts now data else []) @
     (if P WaterQuality then phAlerts now data else []) @
     (if P Consumption then consumptionAlerts now data else []) @
     (if P Scarcity then scarcityAlerts now data else []) @
     (if P Trend then
        (case history of
           None \<Rightarrow> []
         | Some a \<Rightarrow>
          (case lookup h a of
             None \<Rightarrow> []
           | Some hist \<Rightarrow>
               if 3 \<le> length hist then
                 levelTrendAlerts now (sort_key year hist) @
                 depletionTrendAlerts now (sort_key year hist) @
                 rainfallTrendAlerts now (sort_key year hist) @
                 healthTrendAlerts sc now (sort_key year hist)
               else [])) else [])"
  unfolding generateAlerts_alerts filter_append filter_parts
  by (simp add: filter_parts split: option.split)

lemma wl_other [simp]:
  "waterLevelAlerts now (d\<lparr>depletionRate := x\<rparr>) = waterLevelAlerts now d"
  "waterLevelAlerts now (d\<lparr>rainfall := x\<rparr>) = waterLevelAlerts now d"
  "waterLevelAlerts now (d\<lparr>ph := x\<rparr>) = waterLevelAlerts now d"
  "waterLevelAlerts now (d\<lparr>consumption := x\<rparr>) = waterLevelAlerts now d"
  by (simp_all add: waterLevelAlerts_def)
lemma dep_other [simp]:
  "depletionAlerts now (d\<lparr>groundwaterLevel := x\<rparr>) = depletionAlerts now d"
  "depletionAlerts now (d\<lparr>rainfall := x\<rparr>) = depletionAlerts now d"
  "depletionAlerts now (d\<lparr>ph := x\<rparr>) = depletionAlerts now d"
  "depletionAlerts now (d\<lparr>consumption := x\<rparr>) = depletionAlerts now d"
  by (simp_all add: depletionAlerts_def)
lemma rain_other [simp]:
  "rainfallAlerts now (d\<lparr>groundwaterLevel := x\<rparr>) = rainfallAlerts now d"
  "rainfallAlerts now (d\<lparr>depletionRate := x\<rparr>) = rainfallAlerts now d"
  "rainfallAlerts now (d\<lparr>ph := x\<rparr>) = rainfallAlerts now d"
  "rainfallAlerts now (d\<lparr>consumption := x\<rparr>) = rainfallAlerts now d"
  by (simp_all add: rainfallAlerts_def)
lemma ph_other [simp]:
  "phAlerts now (d\<lparr>groundwaterLevel := x\<rparr>) = phAlerts now d"
  "phAlerts now (d\<lparr>depletionRate := x\<rparr>) = phAlerts now d"
  "phAlerts now (d\<lparr>rainfall := x\<rparr>) = phAlerts now d"
  "phAlerts now (d\<lparr>consumption := x\<rparr>) = phAlerts now d"
  by (simp_all add: phAlerts_def)
lemma cons_other [simp]:
  "consumptionAlerts now (d\<lparr>groundwaterLevel := x\<rparr>) = consumptionAlerts now d"
  "consumptionAlerts now (d\<lparr>depletionRate := x\<rparr>) = consumptionAlerts now d"
  "consumptionAlerts now (d\<lparr>rainfall := x\<rparr>) = consumptionAlerts now d"
  "consumptionAlerts now (d\<lparr>ph := x\<rparr>) = consumptionAlerts now d"
  by (simp_all add: consumptionAlerts_def)
lemma scar_other [simp]:
  "scarcityAlerts now (d\<lparr>groundwaterLevel := x\<rparr>) = scarcityAlerts now d"
  "scarcityAlerts now (d\<lparr>depletionRate := x\<rparr>) = scarcityAlerts now d"
  "scarcityAlerts now (d\<lparr>rainfall := x\<rparr>) = scarcityAlerts now d"
  "scarcityAlerts now (d\<lparr>ph := x\<rparr>) = scarcityAlerts now d"
  "scarcityAlerts now (d\<lparr>consumption := x\<rparr>) = scarcityAlerts now d"
  by (simp_all add: scarcityAlerts_def)

lemma missing_no_alert [simp]:
  "waterLevelAlerts now (d\<lparr>groundwaterLevel := Undefined\<rparr>) = []"
  "waterLevelAlerts now (d\<lparr>groundwaterLevel := Null\<rparr>) = []"
  "depletionAlerts now (d\<lparr>depletionRate := Undefined\<rparr>) = []"
  "depletionAlerts now (d\<lparr>depletionRate := Null\<rparr>) = []"
  "rainfallAlerts now (d\<lparr>rainfall := Undefined\<rparr>) = []"
  "phAlerts now (d\<lparr>ph := Undefined\<rparr>) = []"
  "consumptionAlerts now (d\<lparr>consumption := Undefined\<rparr>) = []"
  "consumptionAlerts now (d\<lparr>consumption := Null\<rparr>) = []"
  by (simp_all add: waterLevelAlerts_def depletionAlerts_def rainfallAlerts_def phAlerts_def
      consumptionAlerts_def js_ge_def js_le_def criticalWaterLevel_def warningWaterLevel_def
      highDepletion_def criticalDepletion_def highConsumption_def)

subsection \<open>Missing fields\<close>

text \<open>
  C1 (as amended). A numeric field that is \<^verbatim>\<open>undefined\<close> never raises its alert, and
  neither does a \<^verbatim>\<open>null\<close> in \<open>groundwaterLevel\<close>, \<open>depletionRate\<close> or
  \<open>consumption\<close>. A record with the five fields undefined has no alert of the five
  numeric categories, and the record with every field missing has no alert at all.
  Making one field undefined (or, for the three fields above, null) removes the alert
  of that field from the threshold alerts and changes nothing else. The function has
  no failing branch on a record: property reads, comparisons and \<^verbatim>\<open>push\<close> do not
  throw, so the model is a total function.
\<close>

theorem missing_field_raises_no_alert:
  "filter (\<lambda>a. category a = WaterLevel)
     (fst (generateAlerts sc now h (data\<lparr>groundwaterLevel := Undefined\<rparr>) history)) = [] \<and>
   filter (\<lambda>a. category a = WaterLevel)
     (fst (generateAlerts sc now h (data\<lparr>groundwaterLevel := Null\<rparr>) history)) = [] \<and>
   filter (\<lambda>a. category a = Depletion)
     (fst (generateAlerts sc now h (data\<lparr>depletionRate := Undefined\<rparr>) history)) = [] \<and>
   filter (\<lambda>a. category a = Depletion)
     (fst (generateAlerts sc now h (data\<lparr>depletionRate := Null\<rparr>) history)) = [] \<and>
   filter (\<lambda>a. category a = Rainfall)
     (fst (generateAlerts sc now h (data\<lparr>rainfall := Undefined\<rparr>) history)) = [] \<and>
   filter (\<lambda>a. category a = WaterQuality)
     (fst (generateAlerts sc now h (data\<lparr>ph := Undefined\<rparr>) history)) = [] \<and>
   filter (\<lambda>a. category a = Consumption)
     (fst (generateAlerts sc now h (data\<lparr>consumption := Undefined\<rparr>) history)) = [] \<and>
   filter (\<lambda>a. category a = Consumption)
     (fst (generateAlerts sc now h (data\<lparr>consumption := Null\<rparr>) history)) = [] \<and>
   filter (\<lambda>a. category a \<noteq> Trend \<and> category a \<noteq> Scarcity)
     (fst (generateAlerts sc now h
        (data\<lparr>groundwaterLevel := Undefined, depletionRate := Undefined, rainfall := Undefined,
              ph := Undefined, consumption := Undefined\<rparr>) history)) = [] \<and>
   fst (generateAlerts sc now h empty_record None) = [] \<and>
   filter (\<lambda>a. category a \<noteq> Trend)
     (fst (generateAlerts sc now h (data\<lparr>groundwaterLevel := Undefined\<rparr>) history)) =
   filter (\<lambda>a. category a \<noteq> Trend \<and> category a \<noteq> WaterLevel)
     (fst (generateAlerts sc now h data history)) \<and>
   filter (\<lambda>a. category a \<noteq> Trend)
     (fst (generateAlerts sc now h (data\<lparr>groundwaterLevel := Null\<rparr>) history)) =
   filter (\<lambda>a. category a \<noteq> Trend \<and> category a \<noteq> WaterLevel)
     (fst (generateAlerts sc now h data history)) \<and>
   filter (\<lambda>a. category a \<noteq> Trend)
     (fst (generateAlerts sc now h (data\<lparr>depletionRate := Undefined\<rparr>) history)) =
   filter (\<lambda>a. category a \<noteq> Trend \<and> category a \<noteq> Depletion)
     (fst (generateAlerts sc now h data history)) \<and>
   filter (\<lambda>a. category a \<noteq> Trend)
     (fst (generateAlerts sc now h (data\<lparr>depletionRate := Null\<rparr>) history)) =
   filter (\<lambda>a. category a \<noteq> Trend \<and> category a \<noteq> Depletion)
     (fst (generateAlerts sc now h data history)) \<and>
   filter (\<lambda>a. category a \<noteq> Trend)
     (fst (generateAlerts sc now h (data\<lparr>rainfall := Undefined\<rparr>) history)) =
   filter (\<lambda>a. category a \<noteq> Trend \<and> category a \<noteq> Rainfall)
     (fst (generateAlerts sc now h data history)) \<and>
   filter (\<lambda>a. category a \<noteq> Trend)
     (fst (generateAlerts sc now h (data\<lparr>ph := Undefined\<rparr>) history)) =
   filter (\<lambda>a. category a \<noteq> Trend \<and> category a \<noteq> WaterQuality)
     (fst (generateAlerts sc now h data history)) \<and>
   filter (\<lambda>a. category a \<noteq> Trend)
     (fst (generateAlerts sc now h (data\<lparr>consumption := Undefined\<rparr>) history)) =
   filter (\<lambda>a. category a \<noteq> Trend \<and> category a \<noteq> Consumption)
     (fst (generateAlerts sc now h data history)) \<and>
   filter (\<lambda>a. category a \<noteq> Trend)
     (fst (generateAlerts sc now h (data\<lparr>consumption := Null\<rparr>) history)) =
   filter (\<lambda>a. category a \<noteq> Trend \<and> category a \<noteq> Consumption)
     (fst (generateAlerts sc now h data history))"
proof -
  have empty: "fst (generateAlerts sc now h empty_record None) = []"
    by (simp add: generateAlerts_alerts empty_record_def waterLevelAlerts_def depletionAlerts_def
        rainfallAlerts_def phAlerts_def consumptionAlerts_def scarcityAlerts_def js_ge_def js_le_def)
  show ?thesis
    unfolding empty
    by (simp add: filter_category_generateAlerts [where P = "\<lambda>c. c = WaterLevel"]
        filter_category_generateAlerts [where P = "\<lambda>c. c = Depletion"]
        filter_category_generateAlerts [where P = "\<lambda>c. c = Rainfall"]
        filter_category_generateAlerts [where P = "\<lambda>c. c = WaterQuality"]
        filter_category_generateAlerts [where P = "\<lambda>c. c = Consumption"]
        filter_category_generateAlerts [where P = "\<lambda>c. c \<noteq> Trend \<and> c \<noteq> Scarcity"]
        filter_category_generateAlerts [where P = "\<lambda>c. c \<noteq> Trend"]
        filter_category_generateAlerts [where P = "\<lambda>c. c \<noteq> Trend \<and> c \<noteq> WaterLevel"]
        filter_category_generateAlerts [where P = "\<lambda>c. c \<noteq> Trend \<and> c \<noteq> Depletion"]
        filter_category_generateAlerts [where P = "\<lambda>c. c \<noteq> Trend \<and> c \<noteq> Rainfall"]
        filter_category_generateAlerts [where P = "\<lambda>c. c \<noteq> Trend \<and> c \<noteq> WaterQuality"]
        filter_category_generateAlerts [where P = "\<lambda>c. c \<noteq> Trend \<and> c \<noteq> Consumption"])
qed

text \<open>The claim as written fails for \<^verbatim>\<open>null\<close>: \<^verbatim>\<open>null <= 600\<close> compares 0 with 600,
  so a record whose only field is a null rainfall gets the critical Rainfall alert (and a
  null pH gets the Water Quality warning).\<close>

theorem null_rainfall_raises_alert:
  "map (\<lambda>a. (type a, category a, alert.title a, val a))
     (fst (generateAlerts ph_score [] [] (empty_record\<lparr>rainfall := Null\<rparr>) None)) =
     [(Critical, Rainfall, ''Drought Risk'', NumV Null)] \<and>
   map (\<lambda>a. (type a, category a, alert.title a, val a))
     (fst (generateAlerts ph_score [] [] (empty_record\<lparr>ph := Null\<rparr>) None)) =
     [(Warning, WaterQuality, ''pH Imbalance'', NumV Null)]"
  by (simp add: generateAlerts_alerts empty_record_def waterLevelAlerts_def depletionAlerts_def
      rainfallAlerts_def phAlerts_def consumptionAlerts_def scarcityAlerts_def js_ge_def js_le_def
      criticalRainfall_def highPH_def lowPH_def)

subsection \<open>The water level check\<close>

text \<open>
  C3. For a record whose \<open>groundwaterLevel\<close> is the number \<open>r\<close>, the output has
  exactly one Water Level alert, a critical one, when \<open>r \<ge> 15\<close>; exactly one, a warning,
  when \<open>12 \<le> r < 15\<close>; and none when \<open>r < 12\<close>. Both bounds are inclusive.
\<close>

theorem water_level_alert:
  "groundwaterLevel data = Num r \<Longrightarrow>
   map type (filter (\<lambda>a. category a = WaterLevel) (fst (generateAlerts sc now h data history))) =
     (if 15 \<le> r then [Critical] else if 12 \<le> r then [Warning] else [])"
proof -
  assume g: "groundwaterLevel data = Num r"
  have "map type (waterLevelAlerts now data) =
      (if 15 \<le> r then [Critical] else if 12 \<le> r then [Warning] else [])"
    using g by (simp add: waterLevelAlerts_def js_ge_def criticalWaterLevel_def warningWaterLevel_def)
  then show ?thesis
    by (simp add: filter_category_generateAlerts [where P = "\<lambda>c. c = WaterLevel"])
qed

theorem water_level_alert_witness:
  "groundwaterLevel (empty_record\<lparr>groundwaterLevel := Num 15\<rparr>) = Num 15 \<and>
   map type (filter (\<lambda>a. category a = WaterLevel)
     (fst (generateAlerts ph_score [] [] (empty_record\<lparr>groundwaterLevel := Num 15\<rparr>) None))) = [Critical] \<and>
   groundwaterLevel (empty_record\<lparr>groundwaterLevel := Num 12\<rparr>) = Num 12 \<and>
   map type (filter (\<lambda>a. category a = WaterLevel)
     (fst (generateAlerts ph_score [] [] (empty_record\<lparr>groundwaterLevel := Num 12\<rparr>) None))) = [Warning] \<and>
   map type (filter (\<lambda>a. category a = WaterLevel)
     (fst (generateAlerts ph_score [] [] (empty_record\<lparr>groundwaterLevel := Num (119 / 10)\<rparr>) None))) = []"
  using water_level_alert [of "empty_record\<lparr>groundwaterLevel := Num 15\<rparr>" 15 ph_score "[]" "[]" None]
    water_level_alert [of "empty_record\<lparr>groundwaterLevel := Num 12\<rparr>" 12 ph_score "[]" "[]" None]
    water_level_alert [of "empty_record\<lparr>groundwaterLevel := Num (119 / 10)\<rparr>" "119 / 10" ph_score "[]" "[]" None]
  by simp

subsection \<open>The caller's history\<close>

text \<open>
  C9. After a call, every array the store held before the call is as it was: the store
  afterwards starts with the store before. In particular the array passed as history has
  the same elements in the same order. The sort runs on the copy that the spread made.
\<close>

theorem history_not_mutated:
  "take (length h) (snd (generateAlerts sc now h data history)) = h \<and>
   lookup (snd (generateAlerts sc now h data (Some a))) a = lookup h a"
  by (simp add: generateAlerts_heap lookup_def nth_append split: option.split)

subsection \<open>The order of the alerts\<close>

lemma category_parts:
  "map category (waterLevelAlerts now d) = replicate (length (waterLevelAlerts now d)) WaterLevel"
  "map category (depletionAlerts now d) = replicate (length (depletionAlerts now d)) Depletion"
  "map category (rainfallAlerts now d) = replicate (length (rainfallAlerts now d)) Rainfall"
  "map category (phAlerts now d) = replicate (length (phAlerts now d)) WaterQuality"
  "map category (consumptionAlerts now d) = replicate (length (consumptionAlerts now d)) Consumption"
  "map category (scarcityAlerts now d) = replicate (length (scarcityAlerts now d)) Scarcity"
  "map category (levelTrendAlerts now s) = replicate (length (levelTrendAlerts now s)) Trend"
  "map category (depletionTrendAlerts now s) = replicate (length (depletionTrendAlerts now s)) Trend"
  "map category (rainfallTrendAlerts now s) = replicate (length (rainfallTrendAlerts now s)) Trend"
  "map category (healthTrendAlerts sc now s) = replicate (length (healthTrendAlerts sc now s)) Trend"
  by (simp_all add: waterLevelAlerts_def depletionAlerts_def rainfallAlerts_def phAlerts_def
      consumptionAlerts_def scarcityAlerts_def levelTrendAlerts_def depletionTrendAlerts_def
      rainfallTrendAlerts_def healthTrendAlerts_def Let_def split: option.split)

lemma length_parts:
  "length (waterLevelAlerts now d) \<le> Suc 0"
  "length (depletionAlerts now d) \<le> Suc 0"
  "length (rainfallAlerts now d) \<le> Suc 0"
  "length (phAlerts now d) \<le> Suc 0"
  "length (consumptionAlerts now d) \<le> Suc 0"
  "length (scarcityAlerts now d) \<le> Suc 0"
  by (simp_all add: waterLevelAlerts_def depletionAlerts_def rainfallAlerts_def phAlerts_def
      consumptionAlerts_def scarcityAlerts_def split: option.split)

lemma distinct_replicate_once: "n \<le> Suc 0 \<Longrightarrow> distinct (replicate n x)"
  by (cases n) simp_all

lemma untimed_parts:
  "map untimed (waterLevelAlerts t2 d) = map untimed (waterLevelAlerts t1 d)"
  "map untimed (depletionAlerts t2 d) = map untimed (depletionAlerts t1 d)"
  "map untimed (rainfallAlerts t2 d) = map untimed (rainfallAlerts t1 d)"
  "map untimed (phAlerts t2 d) = map untimed (phAlerts t1 d)"
  "map untimed (consumptionAlerts t2 d) = map untimed (consumptionAlerts t1 d)"
  "map untimed (scarcityAlerts t2 d) = map untimed (scarcityAlerts t1 d)"
  "map untimed (levelTrendAlerts t2 s) = map untimed (levelTrendAlerts t1 s)"
  "map untimed (depletionTrendAlerts t2 s) = map untimed (depletionTrendAlerts t1 s)"
  "map untimed (rainfallTrendAlerts t2 s) = map untimed (rainfallTrendAlerts t1 s)"
  "map untimed (healthTrendAlerts sc t2 s) = map untimed (healthTrendAlerts sc t1 s)"
  by (simp_all add: waterLevelAlerts_def depletionAlerts_def rainfallAlerts_def phAlerts_def
      consumptionAlerts_def scarcityAlerts_def levelTrendAlerts_def depletionTrendAlerts_def
      rainfallTrendAlerts_def healthTrendAlerts_def Let_def untimed_def split: option.split)

lemma lookup_after_call:
  "lookup h a = Some hist \<Longrightarrow> lookup (snd (generateAlerts sc now h data history)) a = Some hist"
  by (auto simp add: generateAlerts_heap lookup_def nth_append split: option.split if_splits)

lemma category_generateAlerts:
  "\<exists>n. map category (fst (generateAlerts sc now h data history)) =
     replicate (length (waterLevelAlerts now data)) WaterLevel @
     replicate (length (depletionAlerts now data)) Depletion @
     replicate (length (rainfallAlerts now data)) Rainfall @
     replicate (length (phAlerts now data)) WaterQuality @
     replicate (length (consumptionAlerts now data)) Consumption @
     replicate (length (scarcityAlerts now data)) Scarcity @
     replicate n Trend"
proof (cases "\<exists>a hist. history = Some a \<and> lookup h a = Some hist \<and> 3 \<le> length hist")
  case True
  then obtain a hist where "history = Some a" "lookup h a = Some hist" "3 \<le> length hist"
    by blast
  then show ?thesis
    by (simp add: generateAlerts_alerts category_parts replicate_add [symmetric])
next
  case False
  then have "map category (fst (generateAlerts sc now h data history)) =
     replicate (length (waterLevelAlerts now data)) WaterLevel @
     replicate (length (depletionAlerts now data)) Depletion @
     replicate (length (rainfallAlerts now data)) Rainfall @
     replicate (length (phAlerts now data)) WaterQuality @
     replicate (length (consumptionAlerts now data)) Consumption @
     replicate (length (scarcityAlerts now data)) Scarcity @
     replicate 0 Trend"
    by (auto simp add: generateAlerts_alerts category_parts split: option.split)
  then show ?thesis by blast
qed

text \<open>
  C6. The categories of the returned alerts are in the order Water Level, Depletion,
  Rainfall, Water Quality, Consumption, Scarcity, Trend: their ranks never decrease along
  the list, so every Trend alert comes after every threshold alert, and no threshold
  category occurs twice. A second call with the same record and history, made in the
  store the first call left and at another time, returns the same alerts in the same
  order, their timestamps apart.
\<close>

theorem alert_order_fixed:
  "sorted (map (category_rank \<circ> category) (fst (generateAlerts sc now h data history))) \<and>
   distinct (filter (\<lambda>c. c \<noteq> Trend) (map category (fst (generateAlerts sc now h data history)))) \<and>
   map untimed (fst (generateAlerts sc now' (snd (generateAlerts sc now h data history)) data history)) =
     map untimed (fst (generateAlerts sc now h data history))"
proof -
  obtain n where cats: "map category (fst (generateAlerts sc now h data history)) =
     replicate (length (waterLevelAlerts now data)) WaterLevel @
     replicate (length (depletionAlerts now data)) Depletion @
     replicate (length (rainfallAlerts now data)) Rainfall @
     replicate (length (phAlerts now data)) WaterQuality @
     replicate (length (consumptionAlerts now data)) Consumption @
     replicate (length (scarcityAlerts now data)) Scarcity @
     replicate n Trend"
    using category_generateAlerts by blast
  have "map (category_rank \<circ> category) (fst (generateAlerts sc now h data history)) =
      map category_rank (map category (fst (generateAlerts sc now h data history)))"
    by simp
  then have ordered: "sorted (map (category_rank \<circ> category) (fst (generateAlerts sc now h data history)))"
    unfolding cats by (auto simp add: sorted_append)
  have once: "distinct (filter (\<lambda>c. c \<noteq> Trend) (map category (fst (generateAlerts sc now h data history))))"
    unfolding cats by (auto simp add: length_parts distinct_replicate_once)
  have again: "map untimed (fst (generateAlerts sc now' (snd (generateAlerts sc now h data history)) data history)) =
     map untimed (fst (generateAlerts sc now h data history))"
  proof (cases history)
    case None
    then show ?thesis
      by (simp add: generateAlerts_alerts untimed_parts [where ?t2.0 = now' and ?t1.0 = now])
  next
    case (Some a)
    show ?thesis
    proof (cases "lookup h a")
      case None
      then have "snd (generateAlerts sc now h data history) = h"
        using Some by (simp add: generateAlerts_heap)
      then show ?thesis
        using Some None by (simp add: generateAlerts_alerts untimed_parts [where ?t2.0 = now' and ?t1.0 = now])
    next
      case (Some hist)
      then have "lookup (snd (generateAlerts sc now h data history)) a = Some hist"
        by (rule lookup_after_call)
      then show ?thesis
        using Some \<open>history = Some a\<close>
        by (simp add: generateAlerts_alerts untimed_parts [where ?t2.0 = now' and ?t1.0 = now])
    qed
  qed
  from ordered once again show ?thesis by blast
qed

subsection \<open>The government updates\<close>

lemma generateGovUpdates_snoc:
  "generateGovUpdates dates (xs @ [latest]) =
     [\<lparr>id = 1, title = ''Groundwater Status Report'', date = dates 1,
        source = ''Central Ground Water Board'',
        priority = (if scarcityLevel latest = Some ''Severe'' \<or> scarcityLevel latest = Some ''Extreme''
                    then High else Normal)\<rparr>,
      \<lparr>id = 2, title = ''Rainfall Monitoring Update'', date = dates 2,
        source = ''India Meteorological Department'',
        priority = (if js_lt (rainfall latest) (Num 700) then High else Normal)\<rparr>,
      \<lparr>id = 3, title = ''Water Quality Assessment'', date = dates 3,
        source = ''State Pollution Control Board'',
        priority = Normal\<rparr>,
      \<lparr>id = 4, title = ''Usage Distribution Report'', date = dates 4,
        source = ''Nashik District Water Authority'',
        priority = Normal\<rparr>,
      \<lparr>id = 5, title = ''Jal Shakti Abhiyan Advisory'', date = dates 5,
        source = ''Ministry of Jal Shakti'',
        priority = (if scarcityLevel latest = Some ''High'' \<or> scarcityLevel latest = Some ''Severe''
                    then High else Normal)\<rparr>]"
proof -
  obtain y ys where "xs @ [latest] = y # ys"
    by (cases "xs @ [latest]") simp_all
  moreover from this have "last (y # ys) = latest"
    by (metis last_snoc)
  ultimately show ?thesis
    by (simp add: generateGovUpdates_def Let_def del: last.simps)
qed

text \<open>
  C7 (as amended). For every non-empty \<open>locationData\<close>, whatever the fields of its last
  record, the function returns exactly five updates, with the ids 1 to 5 in this order.
  For the empty \<open>locationData\<close> it returns no update.
\<close>

theorem five_updates:
  "map gov_update.id (generateGovUpdates dates (xs @ [latest])) = [1, 2, 3, 4, 5] \<and>
   length (generateGovUpdates dates (xs @ [latest])) = 5 \<and>
   generateGovUpdates dates [] = []"
  by (simp add: generateGovUpdates_snoc) (simp add: generateGovUpdates_def)

text \<open>The claim as written fails on the empty array: there is no latest record, and the
  guard \<^verbatim>\<open>if (!latest) return []\<close> returns no update.\<close>

theorem no_updates_without_records:
  "generateGovUpdates sample_dates [] = [] \<and> length (generateGovUpdates sample_dates []) \<noteq> 5"
  by (simp add: generateGovUpdates_def)

text \<open>
  C8 (as amended). For the latest record of a non-empty \<open>locationData\<close>: the Groundwater
  Status Report (id 1) has priority high exactly when the scarcity level is Severe or
  Extreme; the Rainfall Monitoring Update (id 2) has priority high exactly when
  \<^verbatim>\<open>rainfall < 700\<close>; the updates 3 and 4 have priority normal; and, for a scarcity level
  other than Extreme, the Jal Shakti Abhiyan Advisory (id 5) has priority high exactly
  when the level is High or Severe.
\<close>

theorem update_priorities:
  "gov_update.priority (generateGovUpdates dates (xs @ [latest]) ! 0) =
     (if scarcityLevel latest = Some ''Severe'' \<or> scarcityLevel latest = Some ''Extreme''
      then High else Normal) \<and>
   gov_update.priority (generateGovUpdates dates (xs @ [latest]) ! 1) =
     (if js_lt (rainfall latest) (Num 700) then High else Normal) \<and>
   gov_update.priority (generateGovUpdates dates (xs @ [latest]) ! 2) = Normal \<and>
   gov_update.priority (generateGovUpdates dates (xs @ [latest]) ! 3) = Normal \<and>
   (scarcityLevel latest \<noteq> Some ''Extreme'' \<longrightarrow>
    gov_update.priority (generateGovUpdates dates (xs @ [latest]) ! 4) =
     (if scarcityLevel latest = Some ''High'' \<or> scarcityLevel latest = Some ''Severe''
      then High else Normal))"
  by (simp add: generateGovUpdates_snoc)

theorem update_priorities_witness:
  "scarcityLevel (empty_record\<lparr>scarcityLevel := Some ''Severe'', rainfall := Num 650\<rparr>) \<noteq> Some ''Extreme'' \<and>
   map gov_update.priority (generateGovUpdates sample_dates
     [empty_record, empty_record\<lparr>scarcityLevel := Some ''Severe'', rainfall := Num 650\<rparr>]) =
     [High, High, Normal, Normal, High]"
  using update_priorities [of sample_dates "[empty_record]"
      "empty_record\<lparr>scarcityLevel := Some ''Severe'', rainfall := Num 650\<rparr>"]
  by (simp add: generateGovUpdates_snoc [of sample_dates "[empty_record]", simplified] js_lt_def)

text \<open>The claim as written fails for the level High: the status report tests Severe and
  Extreme only.\<close>

theorem status_report_normal_for_high:
  "gov_update.priority (generateGovUpdates sample_dates [empty_record\<lparr>scarcityLevel := Some ''High''\<rparr>] ! 0) = Normal"
  by (simp add: generateGovUpdates_def)

subsection \<open>The counting loop\<close>

declare streak_loop.simps [simp del]

lemma streak_loop_bound: "streak_loop step xs i c \<le> c + (length xs - i)"
proof (induction step xs i c rule: streak_loop.induct)
  case (1 step xs i c)
  show ?case
  proof (cases "i < length xs")
    case True
    with "1.IH" have "streak_loop step xs (i + 1) (if step (xs ! i) (xs ! (i - 1)) then c + 1 else 0)
        \<le> (if step (xs ! i) (xs ! (i - 1)) then c + 1 else 0) + (length xs - (i + 1))"
      by simp
    with True show ?thesis
      by (subst streak_loop.simps) (simp split: if_splits)
  next
    case False
    then show ?thesis by (subst streak_loop.simps) simp
  qed
qed

lemma streak_loop_foldl:
  "streak_loop step xs i c =
     foldl (\<lambda>c b. if b then c + 1 else 0) c (map (\<lambda>j. step (xs ! j) (xs ! (j - 1))) [i..<length xs])"
proof (induction step xs i c rule: streak_loop.induct)
  case (1 step xs i c)
  show ?case
  proof (cases "i < length xs")
    case True
    then have "[i..<length xs] = i # [i + 1..<length xs]"
      by (simp add: upt_conv_Cons)
    with True "1.IH" show ?thesis
      by (subst streak_loop.simps) simp
  next
    case False
    then show ?thesis by (subst streak_loop.simps) simp
  qed
qed

lemma count_trailing:
  "foldl (\<lambda>c b. if b then c + 1 else 0) c bs =
     (if list_all (\<lambda>b. b) bs then c + length bs else length (takeWhile (\<lambda>b. b) (rev bs)))"
  by (induction bs rule: rev_induct) (auto simp add: list_all_iff)

lemma length_takeWhile_all:
  assumes "list_all (\<lambda>b. b) bs"
  shows "length (takeWhile (\<lambda>b. b) (rev bs)) = length bs"
proof -
  from assms have "takeWhile (\<lambda>b. b) (rev bs) = rev bs"
    by (simp add: list_all_iff)
  then show ?thesis
    by (simp only: length_rev)
qed

lemma streak_loop_trailing_run: "streak_loop step xs 1 0 = trailing_run step xs"
proof -
  let ?bs = "bad_steps step xs"
  have "streak_loop step xs 1 0 = foldl (\<lambda>c b. if b then c + 1 else 0) 0 ?bs"
    unfolding bad_steps_def by (rule streak_loop_foldl)
  also have "\<dots> = (if list_all (\<lambda>b. b) ?bs then 0 + length ?bs
      else length (takeWhile (\<lambda>b. b) (rev ?bs)))"
    by (rule count_trailing)
  also have "\<dots> = length (takeWhile (\<lambda>b. b) (rev ?bs))"
  proof (cases "list_all (\<lambda>b. b) ?bs")
    case True
    then have "length (takeWhile (\<lambda>b. b) (rev ?bs)) = length ?bs"
      by (rule length_takeWhile_all)
    with True show ?thesis by (simp only: if_True add_0)
  next
    case False
    then show ?thesis by simp
  qed
  finally show ?thesis
    by (simp add: trailing_run_def)
qed

lemma trailing_run_bound:
  fixes xs :: "water_record list"
  shows "trailing_run step xs \<le> length xs - 1"
  using streak_loop_bound [of step xs 1 0] unfolding streak_loop_trailing_run by simp

lemma trailing_run_all_bad:
  assumes "\<forall>j. 1 \<le> j \<and> j < length xs \<longrightarrow> step (xs ! j) (xs ! (j - 1))"
  shows "trailing_run step xs = length xs - 1"
proof -
  from assms have "list_all (\<lambda>b. b) (bad_steps step xs)"
    by (auto simp add: bad_steps_def list_all_iff)
  then have "trailing_run step xs = length (bad_steps step xs)"
    unfolding trailing_run_def by (rule length_takeWhile_all)
  then show ?thesis
    by (simp add: bad_steps_def)
qed

lemma consecutive_runs:
  "consecutiveRise xs = trailing_run level_rises xs"
  "consecutiveDepIncrease xs = trailing_run depletion_rises xs"
  "consecutiveRainfallDrop xs = trailing_run rainfall_drops xs"
proof -
  have "level_rises = (\<lambda>cur prev. js_gt (groundwaterLevel cur) (groundwaterLevel prev))"
    by (rule ext)+ (simp add: level_rises_def)
  then show "consecutiveRise xs = trailing_run level_rises xs"
    unfolding consecutiveRise_def by (simp only: streak_loop_trailing_run)
  have "depletion_rises = (\<lambda>cur prev. js_gt (depletionRate cur) (depletionRate prev))"
    by (rule ext)+ (simp add: depletion_rises_def)
  then show "consecutiveDepIncrease xs = trailing_run depletion_rises xs"
    unfolding consecutiveDepIncrease_def by (simp only: streak_loop_trailing_run)
  have "rainfall_drops = (\<lambda>cur prev. js_lt (rainfall cur) (rainfall prev))"
    by (rule ext)+ (simp add: rainfall_drops_def)
  then show "consecutiveRainfallDrop xs = trailing_run rainfall_drops xs"
    unfolding consecutiveRainfallDrop_def by (simp only: streak_loop_trailing_run)
qed

subsection \<open>Selecting alerts by title\<close>

lemma title_filter_thresholds:
  assumes "\<not> P ''Critical Water Level''" "\<not> P ''Low Water Table''"
    "\<not> P ''Over-extraction Detected''" "\<not> P ''High Depletion Rate''"
    "\<not> P ''Drought Risk''" "\<not> P ''Below Normal Rainfall''"
    "\<not> P ''pH Imbalance''" "\<not> P ''High Water Consumption''"
    "\<not> P ''Severe Water Scarcity''" "\<not> P ''Extreme Water Scarcity''"
  shows "filter (\<lambda>a. P (alert.title a)) (waterLevelAlerts now d) = []"
    and "filter (\<lambda>a. P (alert.title a)) (depletionAlerts now d) = []"
    and "filter (\<lambda>a. P (alert.title a)) (rainfallAlerts now d) = []"
    and "filter (\<lambda>a. P (alert.title a)) (phAlerts now d) = []"
    and "filter (\<lambda>a. P (alert.title a)) (consumptionAlerts now d) = []"
    and "filter (\<lambda>a. P (alert.title a)) (scarcityAlerts now d) = []"
  using assms
  by (auto simp add: waterLevelAlerts_def depletionAlerts_def rainfallAlerts_def phAlerts_def
      consumptionAlerts_def scarcityAlerts_def split: option.split)

lemma title_filter_trends:
  "filter (\<lambda>a. P (alert.title a)) (levelTrendAlerts now s) =
     (if P ''Sustained Water Level Decline'' then levelTrendAlerts now s else [])"
  "filter (\<lambda>a. P (alert.title a)) (depletionTrendAlerts now s) =
     (if P ''Accelerating Depletion Trend'' then depletionTrendAlerts now s else [])"
  "filter (\<lambda>a. P (alert.title a)) (rainfallTrendAlerts now s) =
     (if P ''Declining Rainfall Pattern'' then rainfallTrendAlerts now s else [])"
  "filter (\<lambda>a. P (alert.title a)) (healthTrendAlerts sc now s) =
     (if P ''Overall Water Health Declining'' then healthTrendAlerts sc now s else [])"
  by (simp_all add: levelTrendAlerts_def depletionTrendAlerts_def rainfallTrendAlerts_def
      healthTrendAlerts_def Let_def)

lemma title_filter_generateAlerts:
  assumes "\<not> P ''Critical Water Level''" "\<not> P ''Low Water Table''"
    "\<not> P ''Over-extraction Detected''" "\<not> P ''High Depletion Rate''"
    "\<not> P ''Drought Risk''" "\<not> P ''Below Normal Rainfall''"
    "\<not> P ''pH Imbalance''" "\<not> P ''High Water Consumption''"
    "\<not> P ''Severe Water Scarcity''" "\<not> P ''Extreme Water Scarcity''"
  shows "filter (\<lambda>a. P (alert.title a)) (fst (generateAlerts sc now h data history)) =
     (case history of
        None \<Rightarrow> []
      | Some a \<Rightarrow>
          (case lookup h a of
             None \<Rightarrow> []
           | Some hist \<Rightarrow>
               if 3 \<le> length hist then
                 (if P ''Sustained Water Level Decline''
                  then levelTrendAlerts now (sort_key year hist) else []) @
                 (if P ''Accelerating Depletion Trend''
                  then depletionTrendAlerts now (sort_key year hist) else []) @
                 (if P ''Declining Rainfall Pattern''
                  then rainfallTrendAlerts now (sort_key year hist) else []) @
                 (if P ''Overall Water Health Declining''
                  then healthTrendAlerts sc now (sort_key year hist) else [])
               else []))"
  unfolding generateAlerts_alerts filter_append title_filter_thresholds [of P, OF assms]
  by (simp add: title_filter_trends split: option.split)

lemma level_decline_alerts:
  assumes "lookup h a = Some hist" "3 \<le> length hist"
  shows "filter (\<lambda>x. alert.title x = ''Sustained Water Level Decline'')
      (fst (generateAlerts sc now h data (Some a))) = levelTrendAlerts now (sort_key year hist)"
  using assms
  by (simp add: title_filter_generateAlerts [where P = "\<lambda>t. t = ''Sustained Water Level Decline''"])

lemma depletion_trend_alerts:
  assumes "lookup h a = Some hist" "3 \<le> length hist"
  shows "filter (\<lambda>x. alert.title x = ''Accelerating Depletion Trend'')
      (fst (generateAlerts sc now h data (Some a))) = depletionTrendAlerts now (sort_key year hist)"
  using assms
  by (simp add: title_filter_generateAlerts [where P = "\<lambda>t. t = ''Accelerating Depletion Trend''"])

lemma rainfall_trend_alerts:
  assumes "lookup h a = Some hist" "3 \<le> length hist"
  shows "filter (\<lambda>x. alert.title x = ''Declining Rainfall Pattern'')
      (fst (generateAlerts sc now h data (Some a))) = rainfallTrendAlerts now (sort_key year hist)"
  using assms
  by (simp add: title_filter_generateAlerts [where P = "\<lambda>t. t = ''Declining Rainfall Pattern''"])


lemma streak_alerts:
  "filter (\<lambda>x. alert.title x \<in> set streak_titles) (fst (generateAlerts sc now h data history)) =
     (case history of
        None \<Rightarrow> []
      | Some a \<Rightarrow>
          (case lookup h a of
             None \<Rightarrow> []
           | Some hist \<Rightarrow>
               if 3 \<le> length hist then
                 levelTrendAlerts now (sort_key year hist) @
                 depletionTrendAlerts now (sort_key year hist) @
                 rainfallTrendAlerts now (sort_key year hist)
               else []))"
proof -
  have sel: "filter (\<lambda>x. alert.title x \<in> set streak_titles) (fst (generateAlerts sc now h data history)) =
     (case history of
        None \<Rightarrow> []
      | Some a \<Rightarrow>
          (case lookup h a of
             None \<Rightarrow> []
           | Some hist \<Rightarrow>
               if 3 \<le> length hist then
                 (if ''Sustained Water Level Decline'' \<in> set streak_titles
                  then levelTrendAlerts now (sort_key year hist) else []) @
                 (if ''Accelerating Depletion Trend'' \<in> set streak_titles
                  then depletionTrendAlerts now (sort_key year hist) else []) @
                 (if ''Declining Rainfall Pattern'' \<in> set streak_titles
                  then rainfallTrendAlerts now (sort_key year hist) else []) @
                 (if ''Overall Water Health Declining'' \<in> set streak_titles
                  then healthTrendAlerts sc now (sort_key year hist) else [])
               else []))"
    by (rule title_filter_generateAlerts [where P = "\<lambda>t. t \<in> set streak_titles"])
      (simp_all add: streak_titles_def)
  show ?thesis
    unfolding sel by (simp add: streak_titles_def split: option.split)
qed

subsection \<open>The streak alerts\<close>

text \<open>
  C2. For a history of at least three records, the alert titled Sustained Water Level
  Decline is in the output exactly when the run of strictly rising levels that ends at
  the last record of the history sorted by year has at least three steps, and its value
  is the length of that run. Five records with strictly rising levels give the value 4.
\<close>

theorem sustained_decline_alert:
  assumes "lookup h a = Some hist" and "3 \<le> length hist"
  shows "filter (\<lambda>x. alert.title x = ''Sustained Water Level Decline'')
       (fst (generateAlerts sc now h data (Some a))) =
     (if 3 \<le> trailing_run level_rises (sort_key year hist) then
        [\<lparr>type = Warning, category = Trend, title = ''Sustained Water Level Decline'',
          val = NumV (Num (real (trailing_run level_rises (sort_key year hist)))),
          threshold = None,
          recommendation = ''Long-term recharge intervention needed. Consider artificial recharge structures.'',
          timestamp = now\<rparr>]
      else []) \<and>
     (length hist = 5 \<and>
      (\<forall>j. 1 \<le> j \<and> j < 5 \<longrightarrow>
         level_rises (sort_key year hist ! j) (sort_key year hist ! (j - 1))) \<longrightarrow>
      map val (filter (\<lambda>x. alert.title x = ''Sustained Water Level Decline'')
        (fst (generateAlerts sc now h data (Some a)))) = [NumV (Num 4)])"
proof -
  let ?s = "sort_key year hist"
  have sel: "filter (\<lambda>x. alert.title x = ''Sustained Water Level Decline'')
       (fst (generateAlerts sc now h data (Some a))) = levelTrendAlerts now ?s"
    using assms by (rule level_decline_alerts)
  have five: "trailing_run level_rises ?s = 4"
    if "length hist = 5"
      and "\<forall>j. 1 \<le> j \<and> j < 5 \<longrightarrow> level_rises (?s ! j) (?s ! (j - 1))"
  proof -
    from that have "\<forall>j. 1 \<le> j \<and> j < length ?s \<longrightarrow> level_rises (?s ! j) (?s ! (j - 1))"
      by simp
    then have "trailing_run level_rises ?s = length ?s - 1"
      by (rule trailing_run_all_bad)
    with that show ?thesis by simp
  qed
  show ?thesis
    unfolding sel using five
    by (simp add: levelTrendAlerts_def consecutive_runs)
qed

theorem sustained_decline_alert_witness:
  "lookup [monotone5] 0 = Some monotone5 \<and> 3 \<le> length monotone5 \<and> length monotone5 = 5 \<and>
   level_rises (sort_key year monotone5 ! 1) (sort_key year monotone5 ! 0) \<and>
   level_rises (sort_key year monotone5 ! 2) (sort_key year monotone5 ! 1) \<and>
   level_rises (sort_key year monotone5 ! 3) (sort_key year monotone5 ! 2) \<and>
   level_rises (sort_key year monotone5 ! 4) (sort_key year monotone5 ! 3) \<and>
   map val (filter (\<lambda>x. alert.title x = ''Sustained Water Level Decline'')
     (fst (generateAlerts ph_score [] [monotone5] empty_record (Some 0)))) = [NumV (Num 4)] \<and>
   lookup [broken8] 0 = Some broken8 \<and> 3 \<le> length broken8 \<and>
   trailing_run level_rises (sort_key year broken8) = 2 \<and>
   filter (\<lambda>x. alert.title x = ''Sustained Water Level Decline'')
     (fst (generateAlerts ph_score [] [broken8] empty_record (Some 0))) = []"
proof -
  have s5: "sort_key year monotone5 =
      [reading 2020 10 1 900, reading 2021 11 2 890, reading 2022 12 3 880, reading 2023 13 4 870,
       reading 2024 14 5 860]"
    by (simp add: monotone5_def reading_def)
  have s8: "sort_key year broken8 =
      [reading 2020 1 0 0, reading 2021 2 0 0, reading 2022 3 0 0, reading 2023 4 0 0,
       reading 2024 5 0 0, reading 2025 5 0 0, reading 2026 6 0 0, reading 2027 7 0 0]"
    by (simp add: broken8_def reading_def)
  have l5: "lookup [monotone5] 0 = Some monotone5" "3 \<le> length monotone5" "length monotone5 = 5"
    by (simp_all add: lookup_def monotone5_def)
  have l8: "lookup [broken8] 0 = Some broken8" "3 \<le> length broken8"
    by (simp_all add: lookup_def broken8_def)
  have r5: "level_rises (sort_key year monotone5 ! 1) (sort_key year monotone5 ! 0)"
    "level_rises (sort_key year monotone5 ! 2) (sort_key year monotone5 ! 1)"
    "level_rises (sort_key year monotone5 ! 3) (sort_key year monotone5 ! 2)"
    "level_rises (sort_key year monotone5 ! 4) (sort_key year monotone5 ! 3)"
    unfolding s5 by (simp_all add: level_rises_def js_gt_def reading_def)
  have all5: "\<forall>j. 1 \<le> j \<and> j < 5 \<longrightarrow>
      level_rises (sort_key year monotone5 ! j) (sort_key year monotone5 ! (j - 1))"
  proof (intro allI impI)
    fix j :: nat
    assume "1 \<le> j \<and> j < 5"
    then have "j = 1 \<or> j = 2 \<or> j = 3 \<or> j = 4" by arith
    with r5 show "level_rises (sort_key year monotone5 ! j) (sort_key year monotone5 ! (j - 1))"
      by auto
  qed
  have t8: "trailing_run level_rises (sort_key year broken8) = 2"
    unfolding s8
    by (simp add: trailing_run_def bad_steps_def level_rises_def js_gt_def reading_def upt_rec)
  from sustained_decline_alert [OF l5(1) l5(2), of ph_score "[]" empty_record] l5(3) all5
  have v5: "map val (filter (\<lambda>x. alert.title x = ''Sustained Water Level Decline'')
     (fst (generateAlerts ph_score [] [monotone5] empty_record (Some 0)))) = [NumV (Num 4)]"
    by blast
  from sustained_decline_alert [OF l8, of ph_score "[]" empty_record] t8
  have v8: "filter (\<lambda>x. alert.title x = ''Sustained Water Level Decline'')
     (fst (generateAlerts ph_score [] [broken8] empty_record (Some 0))) = []"
    by simp
  from l5 r5 v5 l8 t8 v8 show ?thesis by blast
qed

lemma sorted_monotone:
  "sort_key year monotone3 = [reading 2020 10 1 900, reading 2021 11 2 890, reading 2022 12 3 880]"
  "sort_key year monotone4 =
     [reading 2020 10 1 900, reading 2021 11 2 890, reading 2022 12 3 880, reading 2023 13 4 870]"
  by (simp_all add: monotone3_def monotone4_def reading_def)

lemma short_run:
  fixes xs :: "water_record list"
  assumes "length xs < 4"
  shows "\<not> 3 \<le> trailing_run step xs"
  using trailing_run_bound [of step xs] assms by simp

text \<open>
  C10. A history of fewer than four records raises none of the three streak alerts
  (Sustained Water Level Decline, Accelerating Depletion Trend, Declining Rainfall
  Pattern), and neither does a call without history: three records have two adjacent
  steps, and the guard asks for three. Four records can raise all three.
\<close>

theorem short_history_no_streak_alert:
  "(lookup h a = Some hist \<and> length hist < 4 \<longrightarrow>
      filter (\<lambda>x. alert.title x \<in> set streak_titles)
        (fst (generateAlerts sc now h data (Some a))) = []) \<and>
   filter (\<lambda>x. alert.title x \<in> set streak_titles) (fst (generateAlerts sc now h data None)) = [] \<and>
   map alert.title (filter (\<lambda>x. alert.title x \<in> set streak_titles)
     (fst (generateAlerts ph_score [] [monotone4] empty_record (Some 0)))) = streak_titles"
proof -
  have short: "filter (\<lambda>x. alert.title x \<in> set streak_titles)
        (fst (generateAlerts sc now h data (Some a))) = []"
    if "lookup h a = Some hist" and "length hist < 4"
  proof -
    from that(2) have "length (sort_key year hist) < 4" by simp
    then have "\<not> 3 \<le> trailing_run level_rises (sort_key year hist)"
      "\<not> 3 \<le> trailing_run depletion_rises (sort_key year hist)"
      "\<not> 3 \<le> trailing_run rainfall_drops (sort_key year hist)"
      by (rule short_run)+
    with that(1) show ?thesis
      unfolding streak_alerts
      by (simp add: levelTrendAlerts_def depletionTrendAlerts_def rainfallTrendAlerts_def
          consecutive_runs)
  qed
  have none: "filter (\<lambda>x. alert.title x \<in> set streak_titles)
      (fst (generateAlerts sc now h data None)) = []"
    unfolding streak_alerts by simp
  have runs: "trailing_run level_rises (sort_key year monotone4) = 3"
    "trailing_run depletion_rises (sort_key year monotone4) = 3"
    "trailing_run rainfall_drops (sort_key year monotone4) = 3"
    unfolding sorted_monotone
    by (simp_all add: trailing_run_def bad_steps_def level_rises_def depletion_rises_def
        rainfall_drops_def js_gt_def js_lt_def reading_def upt_rec)
  have four: "map alert.title (filter (\<lambda>x. alert.title x \<in> set streak_titles)
     (fst (generateAlerts ph_score [] [monotone4] empty_record (Some 0)))) = streak_titles"
    unfolding streak_alerts
    by (simp add: lookup_def levelTrendAlerts_def depletionTrendAlerts_def rainfallTrendAlerts_def
        consecutive_runs runs streak_titles_def) (simp add: monotone4_def)
  from short none four show ?thesis by blast
qed

theorem short_history_no_streak_alert_witness:
  "lookup [monotone3] 0 = Some monotone3 \<and> length monotone3 < 4 \<and>
   filter (\<lambda>x. alert.title x \<in> set streak_titles)
     (fst (generateAlerts ph_score [] [monotone3] empty_record (Some 0))) = []"
proof -
  have "lookup [monotone3] 0 = Some monotone3 \<and> length monotone3 < 4"
    by (simp add: lookup_def monotone3_def)
  with short_history_no_streak_alert [of "[monotone3]" 0 monotone3 ph_score "[]" empty_record]
  show ?thesis by blast
qed

text \<open>
  C5 (as amended). For a history of at least four records, four being the least, in
  which every adjacent step of the series sorted by year moves in the bad direction of a
  metric (the level rises, the depletion rate rises, the rainfall drops), the alert of
  that metric is raised, and its value is the number of steps.
\<close>

theorem monotone_history_trend_alert:
  assumes "lookup h a = Some hist" and "4 \<le> length hist"
  shows "((\<forall>j. 1 \<le> j \<and> j < length hist \<longrightarrow>
             level_rises (sort_key year hist ! j) (sort_key year hist ! (j - 1))) \<longrightarrow>
          map val (filter (\<lambda>x. alert.title x = ''Sustained Water Level Decline'')
            (fst (generateAlerts sc now h data (Some a)))) = [NumV (Num (real (length hist - 1)))]) \<and>
         ((\<forall>j. 1 \<le> j \<and> j < length hist \<longrightarrow>
             depletion_rises (sort_key year hist ! j) (sort_key year hist ! (j - 1))) \<longrightarrow>
          map val (filter (\<lambda>x. alert.title x = ''Accelerating Depletion Trend'')
            (fst (generateAlerts sc now h data (Some a)))) = [NumV (Num (real (length hist - 1)))]) \<and>
         ((\<forall>j. 1 \<le> j \<and> j < length hist \<longrightarrow>
             rainfall_drops (sort_key year hist ! j) (sort_key year hist ! (j - 1))) \<longrightarrow>
          map val (filter (\<lambda>x. alert.title x = ''Declining Rainfall Pattern'')
            (fst (generateAlerts sc now h data (Some a)))) = [NumV (Num (real (length hist - 1)))])"
proof -
  let ?s = "sort_key year hist"
  from assms have three: "3 \<le> length hist" by simp
  have run: "trailing_run step ?s = length hist - 1 \<and> 3 \<le> trailing_run step ?s"
    if "\<forall>j. 1 \<le> j \<and> j < length hist \<longrightarrow> step (?s ! j) (?s ! (j - 1))" for step
  proof -
    from that have "\<forall>j. 1 \<le> j \<and> j < length ?s \<longrightarrow> step (?s ! j) (?s ! (j - 1))"
      by simp
    then have "trailing_run step ?s = length ?s - 1"
      by (rule trailing_run_all_bad)
    with assms(2) show ?thesis by simp
  qed
  have level: "map val (filter (\<lambda>x. alert.title x = ''Sustained Water Level Decline'')
      (fst (generateAlerts sc now h data (Some a)))) = [NumV (Num (real (length hist - 1)))]"
    if "\<forall>j. 1 \<le> j \<and> j < length hist \<longrightarrow> level_rises (?s ! j) (?s ! (j - 1))"
    unfolding level_decline_alerts [OF assms(1) three] using run [OF that]
    by (simp add: levelTrendAlerts_def consecutive_runs)
  have depletion: "map val (filter (\<lambda>x. alert.title x = ''Accelerating Depletion Trend'')
      (fst (generateAlerts sc now h data (Some a)))) = [NumV (Num (real (length hist - 1)))]"
    if "\<forall>j. 1 \<le> j \<and> j < length hist \<longrightarrow> depletion_rises (?s ! j) (?s ! (j - 1))"
    unfolding depletion_trend_alerts [OF assms(1) three] using run [OF that]
    by (simp add: depletionTrendAlerts_def consecutive_runs)
  have rain: "map val (filter (\<lambda>x. alert.title x = ''Declining Rainfall Pattern'')
      (fst (generateAlerts sc now h data (Some a)))) = [NumV (Num (real (length hist - 1)))]"
    if "\<forall>j. 1 \<le> j \<and> j < length hist \<longrightarrow> rainfall_drops (?s ! j) (?s ! (j - 1))"
    unfolding rainfall_trend_alerts [OF assms(1) three] using run [OF that]
    by (simp add: rainfallTrendAlerts_def consecutive_runs)
  from level depletion rain show ?thesis by blast
qed

theorem monotone_history_trend_alert_witness:
  "lookup [monotone4] 0 = Some monotone4 \<and> 4 \<le> length monotone4 \<and> length monotone4 = 4 \<and>
   level_rises (sort_key year monotone4 ! 1) (sort_key year monotone4 ! 0) \<and>
   level_rises (sort_key year monotone4 ! 2) (sort_key year monotone4 ! 1) \<and>
   level_rises (sort_key year monotone4 ! 3) (sort_key year monotone4 ! 2) \<and>
   depletion_rises (sort_key year monotone4 ! 1) (sort_key year monotone4 ! 0) \<and>
   depletion_rises (sort_key year monotone4 ! 2) (sort_key year monotone4 ! 1) \<and>
   depletion_rises (sort_key year monotone4 ! 3) (sort_key year monotone4 ! 2) \<and>
   rainfall_drops (sort_key year monotone4 ! 1) (sort_key year monotone4 ! 0) \<and>
   rainfall_drops (sort_key year monotone4 ! 2) (sort_key year monotone4 ! 1) \<and>
   rainfall_drops (sort_key year monotone4 ! 3) (sort_key year monotone4 ! 2) \<and>
   map val (filter (\<lambda>x. alert.title x = ''Sustained Water Level Decline'')
     (fst (generateAlerts ph_score [] [monotone4] empty_record (Some 0)))) = [NumV (Num 3)] \<and>
   map val (filter (\<lambda>x. alert.title x = ''Accelerating Depletion Trend'')
     (fst (generateAlerts ph_score [] [monotone4] empty_record (Some 0)))) = [NumV (Num 3)] \<and>
   map val (filter (\<lambda>x. alert.title x = ''Declining Rainfall Pattern'')
     (fst (generateAlerts ph_score [] [monotone4] empty_record (Some 0)))) = [NumV (Num 3)]"
proof -
  have l4: "lookup [monotone4] 0 = Some monotone4" "4 \<le> length monotone4"
    and n4: "length monotone4 = 4"
    by (simp_all add: lookup_def monotone4_def)
  have each: "level_rises (sort_key year monotone4 ! 1) (sort_key year monotone4 ! 0)"
    "level_rises (sort_key year monotone4 ! 2) (sort_key year monotone4 ! 1)"
    "level_rises (sort_key year monotone4 ! 3) (sort_key year monotone4 ! 2)"
    "depletion_rises (sort_key year monotone4 ! 1) (sort_key year monotone4 ! 0)"
    "depletion_rises (sort_key year monotone4 ! 2) (sort_key year monotone4 ! 1)"
    "depletion_rises (sort_key year monotone4 ! 3) (sort_key year monotone4 ! 2)"
    "rainfall_drops (sort_key year monotone4 ! 1) (sort_key year monotone4 ! 0)"
    "rainfall_drops (sort_key year monotone4 ! 2) (sort_key year monotone4 ! 1)"
    "rainfall_drops (sort_key year monotone4 ! 3) (sort_key year monotone4 ! 2)"
    unfolding sorted_monotone
    by (simp_all add: level_rises_def depletion_rises_def rainfall_drops_def js_gt_def js_lt_def
        reading_def)
  have steps: "\<forall>j. 1 \<le> j \<and> j < length monotone4 \<longrightarrow>
      level_rises (sort_key year monotone4 ! j) (sort_key year monotone4 ! (j - 1)) \<and>
      depletion_rises (sort_key year monotone4 ! j) (sort_key year monotone4 ! (j - 1)) \<and>
      rainfall_drops (sort_key year monotone4 ! j) (sort_key year monotone4 ! (j - 1))"
  proof (intro allI impI)
    fix j :: nat
    assume "1 \<le> j \<and> j < length monotone4"
    with n4 have "j = 1 \<or> j = 2 \<or> j = 3" by arith
    with each
    show "level_rises (sort_key year monotone4 ! j) (sort_key year monotone4 ! (j - 1)) \<and>
      depletion_rises (sort_key year monotone4 ! j) (sort_key year monotone4 ! (j - 1)) \<and>
      rainfall_drops (sort_key year monotone4 ! j) (sort_key year monotone4 ! (j - 1))"
      by auto
  qed
  from monotone_history_trend_alert [OF l4, of ph_score "[]" empty_record] steps n4
  have "map val (filter (\<lambda>x. alert.title x = ''Sustained Water Level Decline'')
     (fst (generateAlerts ph_score [] [monotone4] empty_record (Some 0)))) = [NumV (Num 3)] \<and>
   map val (filter (\<lambda>x. alert.title x = ''Accelerating Depletion Trend'')
     (fst (generateAlerts ph_score [] [monotone4] empty_record (Some 0)))) = [NumV (Num 3)] \<and>
   map val (filter (\<lambda>x. alert.title x = ''Declining Rainfall Pattern'')
     (fst (generateAlerts ph_score [] [monotone4] empty_record (Some 0)))) = [NumV (Num 3)]"
    by simp
  with l4 n4 each show ?thesis by blast
qed

text \<open>The claim as written fails: in three records that rise in level and depletion rate
  and drop in rainfall at both steps, each counter ends at 2, and no alert is raised.\<close>

theorem three_records_no_trend_alert:
  "length monotone3 = 3 \<and>
   level_rises (sort_key year monotone3 ! 1) (sort_key year monotone3 ! 0) \<and>
   level_rises (sort_key year monotone3 ! 2) (sort_key year monotone3 ! 1) \<and>
   depletion_rises (sort_key year monotone3 ! 1) (sort_key year monotone3 ! 0) \<and>
   depletion_rises (sort_key year monotone3 ! 2) (sort_key year monotone3 ! 1) \<and>
   rainfall_drops (sort_key year monotone3 ! 1) (sort_key year monotone3 ! 0) \<and>
   rainfall_drops (sort_key year monotone3 ! 2) (sort_key year monotone3 ! 1) \<and>
   consecutiveRise (sort_key year monotone3) = 2 \<and>
   fst (generateAlerts ph_score [] [monotone3] empty_record (Some 0)) = []"
proof -
  have runs: "trailing_run level_rises (sort_key year monotone3) = 2"
    "trailing_run depletion_rises (sort_key year monotone3) = 2"
    "trailing_run rainfall_drops (sort_key year monotone3) = 2"
    unfolding sorted_monotone
    by (simp_all add: trailing_run_def bad_steps_def level_rises_def depletion_rises_def
        rainfall_drops_def js_gt_def js_lt_def reading_def upt_rec)
  have health: "healthTrendAlerts ph_score [] (sort_key year monotone3) = []"
    unfolding sorted_monotone
    by (simp add: healthTrendAlerts_def Let_def avg_def ph_score_def reading_def d_sub_def
        to_double_numeral)
  have "fst (generateAlerts ph_score [] [monotone3] empty_record (Some 0)) = []"
    unfolding generateAlerts_alerts
    by (simp add: lookup_def levelTrendAlerts_def depletionTrendAlerts_def rainfallTrendAlerts_def
        consecutive_runs runs health waterLevelAlerts_def depletionAlerts_def rainfallAlerts_def
        phAlerts_def consumptionAlerts_def scarcityAlerts_def js_ge_def js_le_def empty_record_def)
  moreover have "length monotone3 = 3"
    by (simp add: monotone3_def)
  moreover have "level_rises (sort_key year monotone3 ! 1) (sort_key year monotone3 ! 0)"
    "level_rises (sort_key year monotone3 ! 2) (sort_key year monotone3 ! 1)"
    "depletion_rises (sort_key year monotone3 ! 1) (sort_key year monotone3 ! 0)"
    "depletion_rises (sort_key year monotone3 ! 2) (sort_key year monotone3 ! 1)"
    "rainfall_drops (sort_key year monotone3 ! 1) (sort_key year monotone3 ! 0)"
    "rainfall_drops (sort_key year monotone3 ! 2) (sort_key year monotone3 ! 1)"
    unfolding sorted_monotone
    by (simp_all add: level_rises_def depletion_rises_def rainfall_drops_def js_gt_def js_lt_def
        reading_def)
  ultimately show ?thesis
    using runs by (simp add: consecutive_runs)
qed

subsection \<open>The health check\<close>











end
